theory Spec2Isabelle
  imports Complex_Main "HOL-Library.Sublist"
begin

section \<open>Data model of the Marstek polling coordinator\<close>

text \<open>
  Values stored in a device status dictionary (\<^verbatim>\<open>dict[str, Any]\<close>). Only the
  distinction between strings and everything else matters to the coordinator.
\<close>

datatype pyval = PyNone | PyBool bool | PyInt int | PyFloat real | PyStr string

type_synonym status = "string \<rightharpoonup> pyval"

text \<open>
  Exceptions the device client can raise out of \<^verbatim>\<open>get_device_status\<close>. A subclass is
  represented by the nearest class the \<^verbatim>\<open>except\<close> clause of the coordinator names
  (\<^verbatim>\<open>ConnectionError\<close> is an \<^verbatim>\<open>OSError\<close>, a JSON decoding error is a
  \<^verbatim>\<open>ValueError\<close>); everything else is \<open>OtherException\<close>. \<open>KeyError\<close> is what
  the registries raise for an unknown id.
\<close>

datatype py_exception =
    TimeoutError string
  | OSError string
  | ValueError string
  | KeyError string
  | OtherException string

text \<open>What leaves \<^verbatim>\<open>_async_update_data\<close> when it does not return a record.\<close>

datatype poll_error =
    UpdateFailed string py_exception
  | Uncaught py_exception

record config_entry =
  entry_id :: string
  entry_data :: "string \<rightharpoonup> string"

text \<open>
  The coordinator object. \<open>data\<close> is the field of the host's
  \<^verbatim>\<open>DataUpdateCoordinator\<close>: \<^verbatim>\<open>None\<close> until a refresh has succeeded. Clock readings
  (\<^verbatim>\<open>time.monotonic()\<close>) are taken as real numbers.
\<close>

record coordinator =
  config_entry :: "config_entry option"
  initial_device_ip :: string
  last_pv_fetch :: real
  last_slow_fetch :: real
  data :: "status option"

text \<open>The keyword arguments of one \<^verbatim>\<open>get_device_status\<close> call.\<close>

record fetch_request =
  req_ip :: string
  req_port :: int
  req_timeout :: real
  include_pv :: bool
  include_wifi :: bool
  include_em :: bool
  include_bat :: bool
  delay_between_requests :: real
  previous_status :: "status option"

datatype fetch_outcome = Returned status | Raised py_exception

text \<open>The device client: an external collaborator, taken as a parameter.\<close>

record udp_client =
  is_polling_paused :: "string \<Rightarrow> bool"
  get_device_status :: "fetch_request \<Rightarrow> fetch_outcome"

datatype log_event =
    LogStartPolling string
  | LogPollingPaused string
  | LogPollingTiers string bool bool
  | LogNoValidData string pyval pyval
  | LogPollDone string "pyval option" "pyval option" "pyval option" "pyval option" bool bool
  | LogRequestFailed string py_exception
  | LogIpChanged string string
  | LogUpdatingDeviceName string string
  | LogUpdatingEntity string string string
  | LogUpdatedCount nat string string

text \<open>
  Everything a call does besides changing the coordinator, in the order it happens:
  calls of the device client, calls of the two registries (\<open>DevRegistryGet\<close> and
  \<open>EntRegistryGet\<close> are \<^verbatim>\<open>dr.async_get\<close> and \<^verbatim>\<open>er.async_get\<close>) and log messages.
\<close>

datatype effect =
    PausedQuery string
  | Fetch fetch_request
  | DevRegistryGet
  | DevGet string string
  | DevUpdate string string
  | EntRegistryGet
  | EntList string
  | EntUpdate string string
  | Log log_event

fun fetches :: "effect list \<Rightarrow> fetch_request list" where
  "fetches [] = []"
| "fetches (Fetch r # es) = r # fetches es"
| "fetches (e # es) = fetches es"

section \<open>Constants\<close>

definition MEDIUM_POLL_INTERVAL :: real where
  "MEDIUM_POLL_INTERVAL = 60"

definition SLOW_POLL_INTERVAL :: real where
  "SLOW_POLL_INTERVAL = 300"

text \<open>\<^verbatim>\<open>homeassistant.const.CONF_HOST\<close>.\<close>

definition CONF_HOST :: string where
  "CONF_HOST = ''host''"

section \<open>Dictionary helpers\<close>

text \<open>\<^verbatim>\<open>d.get(k, default)\<close>.\<close>

definition dict_get :: "('k \<rightharpoonup> 'v) \<Rightarrow> 'k \<Rightarrow> 'v \<Rightarrow> 'v" where
  "dict_get d k dflt = (case d k of Some v \<Rightarrow> v | None \<Rightarrow> dflt)"

text \<open>\<^verbatim>\<open>self.data or {}\<close>: \<^verbatim>\<open>None\<close> and the empty dictionary are both falsy.\<close>

definition data_or_empty :: "status option \<Rightarrow> status" where
  "data_or_empty d =
     (case d of
        None \<Rightarrow> Map.empty
      | Some m \<Rightarrow> if m = Map.empty then Map.empty else m)"

section \<open>Polling\<close>

text \<open>The \<^verbatim>\<open>device_ip\<close> property.\<close>

definition device_ip :: "coordinator \<Rightarrow> string" where
  "device_ip s =
     (case config_entry s of
        Some e \<Rightarrow> dict_get (entry_data e) CONF_HOST (initial_device_ip s)
      | None \<Rightarrow> initial_device_ip s)"

text \<open>
  \<^verbatim>\<open>except (TimeoutError, OSError, ValueError)\<close>: which exceptions the handler of
  \<^verbatim>\<open>_async_update_data\<close> catches.
\<close>

fun caught :: "py_exception \<Rightarrow> bool" where
  "caught (TimeoutError m) = True"
| "caught (OSError m) = True"
| "caught (ValueError m) = True"
| "caught e = False"

text \<open>
  The \<^verbatim>\<open>except\<close> clause of \<^verbatim>\<open>_async_update_data\<close>, applied to an exception raised
  inside the \<^verbatim>\<open>try\<close> block for address \<open>ip\<close>.
\<close>

definition handle_exception ::
  "string \<Rightarrow> py_exception \<Rightarrow> poll_error \<times> effect list" where
  "handle_exception current_ip err =
     (if caught err
      then (UpdateFailed (''Polling failed for '' @ current_ip) err,
            [Log (LogRequestFailed current_ip err)])
      else (Uncaught err, []))"

text \<open>
  \<^verbatim>\<open>_async_update_data\<close>. \<open>default_udp_port\<close> is \<^verbatim>\<open>DEFAULT_UDP_PORT\<close> of the
  integration's constants module and \<open>now\<close> is the reading of \<^verbatim>\<open>time.monotonic()\<close>.
  The result is the returned record or the exception that leaves the method, the
  coordinator afterwards, and the effects.
\<close>

definition async_update_data ::
  "udp_client \<Rightarrow> int \<Rightarrow> real \<Rightarrow> coordinator \<Rightarrow>
     (poll_error + status) \<times> coordinator \<times> effect list" where
  "async_update_data client default_udp_port now s =
     (let current_ip = device_ip s in
      if is_polling_paused client current_ip
      then (Inr (data_or_empty (data s)), s,
            [Log (LogStartPolling current_ip), PausedQuery current_ip,
             Log (LogPollingPaused current_ip)])
      else
        let current_time = now;
            inc_pv = (current_time - last_pv_fetch s \<ge> MEDIUM_POLL_INTERVAL);
            inc_slow = (current_time - last_slow_fetch s \<ge> SLOW_POLL_INTERVAL);
            request = \<lparr>req_ip = current_ip, req_port = default_udp_port,
                       req_timeout = 10, include_pv = inc_pv, include_wifi = inc_slow,
                       include_em = True, include_bat = inc_slow,
                       delay_between_requests = 10, previous_status = data s\<rparr>;
            pre = [Log (LogStartPolling current_ip), PausedQuery current_ip,
                   Log (LogPollingTiers current_ip inc_pv inc_slow), Fetch request]
        in case get_device_status client request of
             Raised err \<Rightarrow>
               (case handle_exception current_ip err of
                  (e, logs) \<Rightarrow> (Inl e, s, pre @ logs))
           | Returned device_status \<Rightarrow>
               let s1 = (if inc_pv then s\<lparr>last_pv_fetch := current_time\<rparr> else s);
                   s2 = (if inc_slow then s1\<lparr>last_slow_fetch := current_time\<rparr> else s1);
                   device_mode = dict_get device_status ''device_mode'' (PyStr ''Unknown'');
                   battery_soc = dict_get device_status ''battery_soc'' (PyInt 0);
                   battery_power = dict_get device_status ''battery_power'' (PyInt 0);
                   has_valid_data = (device_mode \<noteq> PyStr ''Unknown'')
               in if \<not> has_valid_data
                  then
                    (case handle_exception current_ip
                            (TimeoutError
                               (''No valid data received from device at '' @ current_ip)) of
                       (e, logs) \<Rightarrow>
                         (Inl e, s2,
                          pre @ [Log (LogNoValidData current_ip battery_soc battery_power)]
                              @ logs))
                  else
                    (Inr device_status, s2,
                     pre @ [Log (LogPollDone current_ip
                                   (device_status ''battery_soc'')
                                   (device_status ''battery_power'')
                                   (device_status ''device_mode'')
                                   (device_status ''battery_status'')
                                   inc_pv inc_slow)]))"

text \<open>
  The host's refresh around \<^verbatim>\<open>_async_update_data\<close>
  (\<^verbatim>\<open>DataUpdateCoordinator\<close>, not part of this repository): a returned record becomes
  \<open>data\<close>; when the method raises, \<open>data\<close> is left as it is.
\<close>

definition async_refresh ::
  "udp_client \<Rightarrow> int \<Rightarrow> real \<Rightarrow> coordinator \<Rightarrow>
     (poll_error + status) \<times> coordinator \<times> effect list" where
  "async_refresh client default_udp_port now s =
     (case async_update_data client default_udp_port now s of
        (Inr d, s', tr) \<Rightarrow> (Inr d, s'\<lparr>data := Some d\<rparr>, tr)
      | (Inl e, s', tr) \<Rightarrow> (Inl e, s', tr))"

section \<open>Strings\<close>

text \<open>\<^verbatim>\<open>sub in s\<close> for strings: \<open>sub\<close> starts at some position of \<open>s\<close>.\<close>

fun str_contains :: "string \<Rightarrow> string \<Rightarrow> bool" where
  "str_contains sub [] = (sub = [])"
| "str_contains sub (c # cs) = (prefix sub (c # cs) \<or> str_contains sub cs)"

text \<open>
  The left-to-right scan of \<^verbatim>\<open>str.replace\<close> for a non-empty \<open>old\<close>: an occurrence
  at the current position is replaced and the scan resumes behind it, so occurrences
  do not overlap.
\<close>

function replace_scan :: "string \<Rightarrow> string \<Rightarrow> string \<Rightarrow> string" where
  "replace_scan old new [] = []"
| "replace_scan old new (c # cs) =
     (if old \<noteq> [] \<and> prefix old (c # cs)
      then new @ replace_scan old new (drop (length old) (c # cs))
      else c # replace_scan old new cs)"
  by pat_completeness auto
termination
  by (relation "measure (\<lambda>(old, new, s). length s)") (auto simp: neq_Nil_conv)

text \<open>
  \<^verbatim>\<open>s.replace(old, new)\<close>. For the empty \<open>old\<close> Python puts \<open>new\<close> in front of
  every character and at the end.
\<close>

definition str_replace :: "string \<Rightarrow> string \<Rightarrow> string \<Rightarrow> string" where
  "str_replace s old new =
     (if old = [] then new @ concat (map (\<lambda>c. c # new) s)
      else replace_scan old new s)"

text \<open>Truthiness of an optional string: \<^verbatim>\<open>None\<close> and \<^verbatim>\<open>""\<close> are falsy.\<close>

fun truthy :: "string option \<Rightarrow> bool" where
  "truthy None = False"
| "truthy (Some x) = (x \<noteq> [])"

text \<open>\<^verbatim>\<open>a or b\<close> on optional strings.\<close>

definition py_or :: "string option \<Rightarrow> string option \<Rightarrow> string option" where
  "py_or a b = (if truthy a then a else b)"

text \<open>\<^verbatim>\<open>name and old_ip in name\<close>.\<close>

fun name_matches :: "string \<Rightarrow> string option \<Rightarrow> bool" where
  "name_matches old_ip None = False"
| "name_matches old_ip (Some n) = (n \<noteq> [] \<and> str_contains old_ip n)"

section \<open>The host's registries\<close>

record device_entry =
  dev_id :: string
  dev_identifiers :: "(string \<times> string) list"
  dev_name :: "string option"

record entity_entry =
  entity_id :: string
  ent_config_entry_id :: string
  ent_name :: "string option"

record registries =
  devices :: "device_entry list"
  entities :: "entity_entry list"

text \<open>
  The registry operations the coordinator calls (\<^verbatim>\<open>homeassistant.helpers\<close>, not part
  of this repository). A registry is a dictionary keyed by id, kept here as the list of
  its entries in iteration order; an update of an id that is not there raises
  \<^verbatim>\<open>KeyError\<close>.
\<close>

definition async_get_device ::
  "device_entry list \<Rightarrow> string \<times> string \<Rightarrow> device_entry option" where
  "async_get_device devs ident = find (\<lambda>d. ident \<in> set (dev_identifiers d)) devs"

definition async_update_device ::
  "string \<Rightarrow> string \<Rightarrow> device_entry list \<Rightarrow> py_exception + device_entry list" where
  "async_update_device did name devs =
     (if did \<in> set (map dev_id devs)
      then Inr (map (\<lambda>d. if dev_id d = did then d\<lparr>dev_name := Some name\<rparr> else d) devs)
      else Inl (KeyError did))"

definition async_entries_for_config_entry ::
  "entity_entry list \<Rightarrow> string \<Rightarrow> entity_entry list" where
  "async_entries_for_config_entry reg cid = filter (\<lambda>e. ent_config_entry_id e = cid) reg"

definition async_update_entity ::
  "string \<Rightarrow> string \<Rightarrow> entity_entry list \<Rightarrow> py_exception + entity_entry list" where
  "async_update_entity eid name reg =
     (if eid \<in> set (map entity_id reg)
      then Inr (map (\<lambda>e. if entity_id e = eid then e\<lparr>ent_name := Some name\<rparr> else e) reg)
      else Inl (KeyError eid))"

section \<open>Rebinding\<close>

text \<open>
  The first half of \<^verbatim>\<open>_update_entity_names\<close>: the device name. \<open>domain\<close> is
  \<^verbatim>\<open>DOMAIN\<close> of the integration's constants module, \<open>device_identifier\<close> the
  local variable of that name.
\<close>

definition device_identifier :: "config_entry \<Rightarrow> string option" where
  "device_identifier ce =
     py_or (py_or (entry_data ce ''ble_mac'') (entry_data ce ''mac''))
           (entry_data ce ''wifi_mac'')"

definition update_device_name ::
  "string \<Rightarrow> string \<Rightarrow> string \<Rightarrow> config_entry \<Rightarrow> device_entry list \<Rightarrow>
     py_exception + (device_entry list \<times> effect list)" where
  "update_device_name domain new_ip old_ip ce devs =
     (case device_identifier ce of
        None \<Rightarrow> Inr (devs, [DevRegistryGet])
      | Some ident \<Rightarrow>
          if ident = [] then Inr (devs, [DevRegistryGet])
          else
            (case async_get_device devs (domain, ident) of
               None \<Rightarrow> Inr (devs, [DevRegistryGet, DevGet domain ident])
             | Some device \<Rightarrow>
                 if name_matches old_ip (dev_name device)
                 then
                   (let new_device_name =
                          str_replace (the (dev_name device)) old_ip new_ip
                    in case async_update_device (dev_id device) new_device_name devs of
                         Inl err \<Rightarrow> Inl err
                       | Inr devs' \<Rightarrow>
                           Inr (devs',
                                [DevRegistryGet, DevGet domain ident,
                                 Log (LogUpdatingDeviceName (the (dev_name device))
                                        new_device_name),
                                 DevUpdate (dev_id device) new_device_name]))
                 else Inr (devs, [DevRegistryGet, DevGet domain ident])))"

text \<open>
  The loop of \<^verbatim>\<open>_update_entity_names\<close> over the entries listed for the config entry.
  \<open>reg\<close> is the entity registry as the updates so far have left it, \<open>cnt\<close> is
  \<^verbatim>\<open>updated_count\<close>.
\<close>

fun update_entities ::
  "string \<Rightarrow> string \<Rightarrow> entity_entry list \<Rightarrow> entity_entry list \<Rightarrow> nat \<Rightarrow>
     py_exception + (entity_entry list \<times> nat \<times> effect list)" where
  "update_entities new_ip old_ip [] reg cnt = Inr (reg, cnt, [])"
| "update_entities new_ip old_ip (e # es) reg cnt =
     (if name_matches old_ip (ent_name e)
      then
        (let new_name = str_replace (the (ent_name e)) old_ip new_ip
         in case async_update_entity (entity_id e) new_name reg of
              Inl err \<Rightarrow> Inl err
            | Inr reg' \<Rightarrow>
                (case update_entities new_ip old_ip es reg' (cnt + 1) of
                   Inl err \<Rightarrow> Inl err
                 | Inr (reg'', cnt', tr) \<Rightarrow>
                     Inr (reg'', cnt',
                          Log (LogUpdatingEntity (entity_id e) (the (ent_name e)) new_name)
                          # EntUpdate (entity_id e) new_name # tr)))
      else update_entities new_ip old_ip es reg cnt)"

text \<open>\<^verbatim>\<open>_update_entity_names\<close>. The method returns nothing; the count is only logged.\<close>

definition update_entity_names ::
  "string \<Rightarrow> string \<Rightarrow> string \<Rightarrow> coordinator \<Rightarrow> registries \<Rightarrow>
     py_exception + (registries \<times> effect list)" where
  "update_entity_names domain new_ip old_ip s regs =
     (case config_entry s of
        None \<Rightarrow> Inr (regs, [])
      | Some ce \<Rightarrow>
          (case update_device_name domain new_ip old_ip ce (devices regs) of
             Inl err \<Rightarrow> Inl err
           | Inr (devs', tr1) \<Rightarrow>
               (let ents = async_entries_for_config_entry (entities regs) (entry_id ce)
                in case update_entities new_ip old_ip ents (entities regs) 0 of
                     Inl err \<Rightarrow> Inl err
                   | Inr (ents', updated_count, tr2) \<Rightarrow>
                       Inr (\<lparr>devices = devs', entities = ents'\<rparr>,
                            tr1 @ [EntRegistryGet, EntList (entry_id ce)] @ tr2 @
                            (if updated_count > 0
                             then [Log (LogUpdatedCount updated_count old_ip new_ip)]
                             else [])))))"

text \<open>
  \<^verbatim>\<open>_async_config_entry_updated\<close>, the listener the coordinator registers on its
  config entry; \<open>entry\<close> is the entry the host passes.
\<close>

definition async_config_entry_updated ::
  "string \<Rightarrow> config_entry \<Rightarrow> coordinator \<Rightarrow> registries \<Rightarrow>
     py_exception + (coordinator \<times> registries \<times> effect list)" where
  "async_config_entry_updated domain entry s regs =
     (case config_entry s of
        None \<Rightarrow> Inr (s, regs, [])
      | Some own \<Rightarrow>
          (let old_ip = initial_device_ip s;
               new_ip = dict_get (entry_data entry) CONF_HOST old_ip
           in if new_ip \<noteq> old_ip
              then
                (case update_entity_names domain new_ip old_ip s regs of
                   Inl err \<Rightarrow> Inl err
                 | Inr (regs', tr) \<Rightarrow>
                     Inr (s\<lparr>initial_device_ip := new_ip\<rparr>, regs',
                          Log (LogIpChanged old_ip new_ip) # tr))
              else Inr (s, regs, [])))"

section \<open>Observations on requests, registries and traces\<close>

text \<open>The counts that the \<^verbatim>\<open>"Updated %d entity name(s)"\<close> messages of a trace report.\<close>

fun logged_counts :: "effect list \<Rightarrow> nat list" where
  "logged_counts [] = []"
| "logged_counts (Log (LogUpdatedCount n old_ip new_ip) # es) = n # logged_counts es"
| "logged_counts (e # es) = logged_counts es"

text \<open>How many positions of two lists of names differ.\<close>

definition changed_names :: "string option list \<Rightarrow> string option list \<Rightarrow> nat" where
  "changed_names before after = length (filter (\<lambda>(a, b). a \<noteq> b) (zip before after))"

text \<open>How many naming records (device names and entity names) differ.\<close>

definition records_changed :: "registries \<Rightarrow> registries \<Rightarrow> nat" where
  "records_changed before after =
     changed_names (map dev_name (devices before)) (map dev_name (devices after)) +
     changed_names (map ent_name (entities before)) (map ent_name (entities after))"

text \<open>
  The device the registry holds for the stable identifier of a config entry; none when
  the entry has no identifier or the registry has no such device. Then what rebinding
  from \<open>old_ip\<close> to \<open>new_ip\<close> is to do to one entity entry of the registry, for the
  config entry \<open>cid\<close>, and to one device entry, for the looked-up device \<open>found\<close>.
\<close>

definition found_device ::
  "string \<Rightarrow> config_entry \<Rightarrow> device_entry list \<Rightarrow> device_entry option" where
  "found_device domain ce devs =
     (case device_identifier ce of
        None \<Rightarrow> None
      | Some ident \<Rightarrow> if ident = [] then None else async_get_device devs (domain, ident))"

definition renamed_entity :: "string \<Rightarrow> string \<Rightarrow> string \<Rightarrow> entity_entry \<Rightarrow> entity_entry" where
  "renamed_entity new_ip old_ip cid e =
     (if ent_config_entry_id e = cid \<and> name_matches old_ip (ent_name e)
      then e\<lparr>ent_name := Some (str_replace (the (ent_name e)) old_ip new_ip)\<rparr>
      else e)"

definition renamed_device ::
  "string \<Rightarrow> string \<Rightarrow> device_entry option \<Rightarrow> device_entry \<Rightarrow> device_entry" where
  "renamed_device new_ip old_ip found d =
     (if found = Some d \<and> name_matches old_ip (dev_name d)
      then d\<lparr>dev_name := Some (str_replace (the (dev_name d)) old_ip new_ip)\<rparr>
      else d)"

text \<open>
  The request \<^verbatim>\<open>_async_update_data\<close> sends at time \<open>now\<close> from coordinator \<open>s\<close>,
  with the two intervals written as numbers.
\<close>

abbreviation tier_request :: "int \<Rightarrow> real \<Rightarrow> coordinator \<Rightarrow> fetch_request" where
  "tier_request port now s \<equiv>
     \<lparr>req_ip = device_ip s, req_port = port, req_timeout = 10,
      include_pv = (60 \<le> now - last_pv_fetch s),
      include_wifi = (300 \<le> now - last_slow_fetch s),
      include_em = True,
      include_bat = (300 \<le> now - last_slow_fetch s),
      delay_between_requests = 10, previous_status = data s\<rparr>"

section \<open>Concrete inputs\<close>

text \<open>
  A coordinator bound to 10.0.0.7, device clients with a fixed answer, and registries
  holding one device and three entities, two of them of the coordinator's config entry;
  then the same after the address has moved to 10.0.0.8.
\<close>

definition example_entry :: config_entry where
  "example_entry = \<lparr>entry_id = ''e1'', entry_data = [''host'' \<mapsto> ''10.0.0.7'', ''mac'' \<mapsto> ''aabb'']\<rparr>"

definition example_coordinator :: coordinator where
  "example_coordinator =
     \<lparr>config_entry = Some example_entry, initial_device_ip = ''10.0.0.7'',
      last_pv_fetch = 0, last_slow_fetch = 0, data = None\<rparr>"

definition client_returning :: "bool \<Rightarrow> fetch_outcome \<Rightarrow> udp_client" where
  "client_returning paused out =
     \<lparr>is_polling_paused = (\<lambda>ip. paused), get_device_status = (\<lambda>r. out)\<rparr>"

definition flag_checking_client :: udp_client where
  "flag_checking_client =
     \<lparr>is_polling_paused = (\<lambda>ip. False),
      get_device_status =
        (\<lambda>r. if include_pv r \<and> \<not> include_wifi r \<and> include_em r \<and> \<not> include_bat r
             then Returned [''device_mode'' \<mapsto> PyStr ''Auto'']
             else Raised (OSError ''unexpected flags''))\<rparr>"

definition example_registries :: registries where
  "example_registries =
     \<lparr>devices =
        [\<lparr>dev_id = ''d1'', dev_identifiers = [(''marstek'', ''aabb'')],
          dev_name = Some ''Marstek 10.0.0.7''\<rparr>],
      entities =
        [\<lparr>entity_id = ''sensor.soc'', ent_config_entry_id = ''e1'',
          ent_name = Some ''SOC 10.0.0.7''\<rparr>,
         \<lparr>entity_id = ''sensor.power'', ent_config_entry_id = ''e1'',
          ent_name = Some ''Power''\<rparr>,
         \<lparr>entity_id = ''sensor.other'', ent_config_entry_id = ''e2'',
          ent_name = Some ''Other 10.0.0.7''\<rparr>]\<rparr>"

definition moved_entry :: config_entry where
  "moved_entry = \<lparr>entry_id = ''e1'', entry_data = [''host'' \<mapsto> ''10.0.0.8'', ''mac'' \<mapsto> ''aabb'']\<rparr>"

definition renamed_registries :: registries where
  "renamed_registries =
     \<lparr>devices =
        [\<lparr>dev_id = ''d1'', dev_identifiers = [(''marstek'', ''aabb'')],
          dev_name = Some ''Marstek 10.0.0.8''\<rparr>],
      entities =
        [\<lparr>entity_id = ''sensor.soc'', ent_config_entry_id = ''e1'',
          ent_name = Some ''SOC 10.0.0.8''\<rparr>,
         \<lparr>entity_id = ''sensor.power'', ent_config_entry_id = ''e1'',
          ent_name = Some ''Power''\<rparr>,
         \<lparr>entity_id = ''sensor.other'', ent_config_entry_id = ''e2'',
          ent_name = Some ''Other 10.0.0.7''\<rparr>]\<rparr>"

definition rename_trace :: "effect list" where
  "rename_trace =
     [DevRegistryGet, DevGet ''marstek'' ''aabb'',
      Log (LogUpdatingDeviceName ''Marstek 10.0.0.7'' ''Marstek 10.0.0.8''),
      DevUpdate ''d1'' ''Marstek 10.0.0.8'', EntRegistryGet, EntList ''e1'',
      Log (LogUpdatingEntity ''sensor.soc'' ''SOC 10.0.0.7'' ''SOC 10.0.0.8''),
      EntUpdate ''sensor.soc'' ''SOC 10.0.0.8'',
      Log (LogUpdatedCount 1 ''10.0.0.7'' ''10.0.0.8'')]"

definition bare_entry :: config_entry where
  "bare_entry = \<lparr>entry_id = ''e1'', entry_data = [''host'' \<mapsto> ''10.0.0.7'']\<rparr>"

definition rebinding_coordinator :: coordinator where
  "rebinding_coordinator = example_coordinator\<lparr>config_entry := Some moved_entry\<rparr>"

definition rebound_coordinator :: coordinator where
  "rebound_coordinator = rebinding_coordinator\<lparr>initial_device_ip := ''10.0.0.8''\<rparr>"

section \<open>Properties of polling\<close>

lemma data_or_empty_eq: "data_or_empty d = (case d of None \<Rightarrow> Map.empty | Some m \<Rightarrow> m)"
  by (simp add: data_or_empty_def split: option.split)

lemma fetches_append: "fetches (xs @ ys) = fetches xs @ fetches ys"
  by (induction xs rule: fetches.induct) simp_all

lemma poll_paused:
  "is_polling_paused client (device_ip s) \<Longrightarrow>
   async_update_data client port now s =
     (Inr (data_or_empty (data s)), s,
      [Log (LogStartPolling (device_ip s)), PausedQuery (device_ip s),
       Log (LogPollingPaused (device_ip s))])"
  by (simp add: async_update_data_def Let_def)

lemma poll_raised:
  assumes "\<not> is_polling_paused client (device_ip s)"
    and "get_device_status client (tier_request port now s) = Raised err"
  shows "async_update_data client port now s =
     (Inl (fst (handle_exception (device_ip s) err)), s,
      [Log (LogStartPolling (device_ip s)), PausedQuery (device_ip s),
       Log (LogPollingTiers (device_ip s) (60 \<le> now - last_pv_fetch s)
              (300 \<le> now - last_slow_fetch s)),
       Fetch (tier_request port now s)] @ snd (handle_exception (device_ip s) err))"
  using assms
  by (simp add: async_update_data_def Let_def MEDIUM_POLL_INTERVAL_def
      SLOW_POLL_INTERVAL_def split: prod.split)

lemma poll_returned_fst:
  assumes "\<not> is_polling_paused client (device_ip s)"
    and "get_device_status client (tier_request port now s) = Returned d"
  shows "fst (async_update_data client port now s) =
     (if dict_get d ''device_mode'' (PyStr ''Unknown'') = PyStr ''Unknown''
      then Inl (UpdateFailed (''Polling failed for '' @ device_ip s)
                  (TimeoutError (''No valid data received from device at '' @ device_ip s)))
      else Inr d)"
  using assms
  by (simp add: async_update_data_def Let_def MEDIUM_POLL_INTERVAL_def
      SLOW_POLL_INTERVAL_def handle_exception_def split: prod.split)

lemma poll_returned_state:
  assumes "\<not> is_polling_paused client (device_ip s)"
    and "get_device_status client (tier_request port now s) = Returned d"
  shows "fst (snd (async_update_data client port now s)) =
     s\<lparr>last_pv_fetch := (if 60 \<le> now - last_pv_fetch s then now else last_pv_fetch s),
       last_slow_fetch := (if 300 \<le> now - last_slow_fetch s then now else last_slow_fetch s)\<rparr>"
  using assms
  by (simp add: async_update_data_def Let_def MEDIUM_POLL_INTERVAL_def
      SLOW_POLL_INTERVAL_def handle_exception_def split: prod.split)

lemma poll_fetches:
  "\<not> is_polling_paused client (device_ip s) \<Longrightarrow>
   fetches (snd (snd (async_update_data client port now s))) = [tier_request port now s]"
  by (simp add: async_update_data_def Let_def fetches_append
      MEDIUM_POLL_INTERVAL_def SLOW_POLL_INTERVAL_def handle_exception_def
      split: fetch_outcome.split prod.split)

lemma poll_data_unchanged:
  "data (fst (snd (async_update_data client port now s))) = data s"
  by (simp add: async_update_data_def Let_def split: fetch_outcome.split prod.split)

lemma example_device_ip: "device_ip example_coordinator = ''10.0.0.7''"
  by (simp add: device_ip_def example_coordinator_def example_entry_def dict_get_def CONF_HOST_def)

lemmas example_defs =
  client_returning_def device_ip_def example_coordinator_def example_entry_def
  dict_get_def CONF_HOST_def

lemmas poll_defs =
  async_update_data_def handle_exception_def MEDIUM_POLL_INTERVAL_def
  SLOW_POLL_INTERVAL_def Let_def

lemma transport_failure_keeps_state:
  assumes "\<not> is_polling_paused client (device_ip s)"
    and "get_device_status client (tier_request port now s) = Raised err"
  shows "fst (snd (async_update_data client port now s)) = s"
  using poll_raised [OF assms] by simp

lemma failed_refresh_keeps_data:
  "fst (async_refresh client port now s) = Inl e \<Longrightarrow>
   data (fst (snd (async_refresh client port now s))) = data s"
  using poll_data_unchanged [of client port now s]
  by (auto simp: async_refresh_def split: prod.splits sum.splits)

text \<open>
  C1. A poll that is not paused makes exactly one \<^verbatim>\<open>get_device_status\<close> call, with
  the request \<open>r\<close>: its fast-tier flag is always set, its PV flag is set exactly when at
  least 60 seconds separate \<open>now\<close> from the recorded PV fetch time, and its WiFi and
  battery flags are set exactly when at least 300 seconds separate \<open>now\<close> from the
  recorded slow fetch time. What the poll returns or raises is decided by what the
  device client answers to that very request.
\<close>

theorem poll_tier_flags:
  assumes "\<not> is_polling_paused client (device_ip s)"
    and "r = \<lparr>req_ip = device_ip s, req_port = port, req_timeout = 10,
               include_pv = (60 \<le> now - last_pv_fetch s),
               include_wifi = (300 \<le> now - last_slow_fetch s),
               include_em = True,
               include_bat = (300 \<le> now - last_slow_fetch s),
               delay_between_requests = 10, previous_status = data s\<rparr>"
  shows "fetches (snd (snd (async_update_data client port now s))) = [r] \<and>
         fst (async_update_data client port now s) =
           (case get_device_status client r of
              Raised err \<Rightarrow>
                Inl (if caught err
                     then UpdateFailed (''Polling failed for '' @ device_ip s) err
                     else Uncaught err)
            | Returned d \<Rightarrow>
                if dict_get d ''device_mode'' (PyStr ''Unknown'') = PyStr ''Unknown''
                then Inl (UpdateFailed (''Polling failed for '' @ device_ip s)
                            (TimeoutError
                               (''No valid data received from device at '' @ device_ip s)))
                else Inr d)"
proof (cases "get_device_status client r")
  case (Returned d)
  with poll_fetches [OF assms(1), of port now] poll_returned_fst [OF assms(1), of port now d]
  show ?thesis unfolding assms(2) by simp
next
  case (Raised err)
  with poll_fetches [OF assms(1), of port now] poll_raised [OF assms(1), of port now err]
  show ?thesis unfolding assms(2) by (simp add: handle_exception_def)
qed

theorem poll_tier_flags_witness:
  "\<not> is_polling_paused flag_checking_client
        (device_ip (example_coordinator\<lparr>last_pv_fetch := 40, last_slow_fetch := 40\<rparr>)) \<and>
   fetches (snd (snd (async_update_data flag_checking_client 30000 100
       (example_coordinator\<lparr>last_pv_fetch := 40, last_slow_fetch := 40\<rparr>)))) =
     [\<lparr>req_ip = ''10.0.0.7'', req_port = 30000, req_timeout = 10,
       include_pv = True, include_wifi = False, include_em = True, include_bat = False,
       delay_between_requests = 10, previous_status = None\<rparr>] \<and>
   fst (async_update_data flag_checking_client 30000 100
       (example_coordinator\<lparr>last_pv_fetch := 40, last_slow_fetch := 40\<rparr>)) =
     Inr [''device_mode'' \<mapsto> PyStr ''Auto'']"
proof -
  have h1: "\<not> is_polling_paused flag_checking_client
        (device_ip (example_coordinator\<lparr>last_pv_fetch := 40, last_slow_fetch := 40\<rparr>))"
    by (simp add: flag_checking_client_def)
  have h2: "\<lparr>req_ip = ''10.0.0.7'', req_port = 30000, req_timeout = 10,
       include_pv = True, include_wifi = False, include_em = True, include_bat = False,
       delay_between_requests = 10, previous_status = None\<rparr> =
     \<lparr>req_ip = device_ip (example_coordinator\<lparr>last_pv_fetch := 40, last_slow_fetch := 40\<rparr>),
      req_port = 30000, req_timeout = 10,
      include_pv = (60 \<le> 100 - last_pv_fetch
                       (example_coordinator\<lparr>last_pv_fetch := 40, last_slow_fetch := 40\<rparr>)),
      include_wifi = (300 \<le> 100 - last_slow_fetch
                       (example_coordinator\<lparr>last_pv_fetch := 40, last_slow_fetch := 40\<rparr>)),
      include_em = True,
      include_bat = (300 \<le> 100 - last_slow_fetch
                       (example_coordinator\<lparr>last_pv_fetch := 40, last_slow_fetch := 40\<rparr>)),
      delay_between_requests = 10,
      previous_status = data (example_coordinator\<lparr>last_pv_fetch := 40, last_slow_fetch := 40\<rparr>)\<rparr>"
    by (simp add: example_defs)
  from poll_tier_flags [OF h1 h2] h1 show ?thesis
    by (simp add: flag_checking_client_def dict_get_def)
qed

text \<open>
  C3. When the fetch returns a record whose \<^verbatim>\<open>device_mode\<close> is \<^verbatim>\<open>"Unknown"\<close> (or is
  missing, which reads as \<^verbatim>\<open>"Unknown"\<close>), the poll does not return it: it raises
  \<^verbatim>\<open>UpdateFailed\<close>, caused by the \<^verbatim>\<open>TimeoutError\<close> of the validity check.
\<close>

theorem unknown_mode_is_poll_failed:
  assumes "\<not> is_polling_paused client (device_ip s)"
    and "fetches (snd (snd (async_update_data client port now s))) = [r]"
    and "get_device_status client r = Returned d"
    and "d ''device_mode'' = Some (PyStr ''Unknown'') \<or> d ''device_mode'' = None"
  shows "fst (async_update_data client port now s) =
           Inl (UpdateFailed (''Polling failed for '' @ device_ip s)
                  (TimeoutError (''No valid data received from device at '' @ device_ip s)))"
proof -
  from assms(1,2) have r: "r = tier_request port now s"
    using poll_fetches [of client s port now] by simp
  from assms(4) have "dict_get d ''device_mode'' (PyStr ''Unknown'') = PyStr ''Unknown''"
    by (auto simp: dict_get_def)
  with poll_returned_fst [OF assms(1), of port now d] assms(3) r show ?thesis
    by simp
qed

theorem unknown_mode_is_poll_failed_witness:
  "\<not> is_polling_paused
        (client_returning False (Returned [''device_mode'' \<mapsto> PyStr ''Unknown'']))
        (device_ip example_coordinator) \<and>
   fetches (snd (snd (async_update_data
       (client_returning False (Returned [''device_mode'' \<mapsto> PyStr ''Unknown'']))
       30000 1000 example_coordinator))) =
     [\<lparr>req_ip = ''10.0.0.7'', req_port = 30000, req_timeout = 10,
       include_pv = True, include_wifi = True, include_em = True, include_bat = True,
       delay_between_requests = 10, previous_status = None\<rparr>] \<and>
   fst (async_update_data
       (client_returning False (Returned [''device_mode'' \<mapsto> PyStr ''Unknown'']))
       30000 1000 example_coordinator) =
     Inl (UpdateFailed ''Polling failed for 10.0.0.7''
            (TimeoutError ''No valid data received from device at 10.0.0.7''))"
  using unknown_mode_is_poll_failed
    [of "client_returning False (Returned [''device_mode'' \<mapsto> PyStr ''Unknown''])"
        example_coordinator 30000 1000
        "\<lparr>req_ip = ''10.0.0.7'', req_port = 30000, req_timeout = 10,
          include_pv = True, include_wifi = True, include_em = True, include_bat = True,
          delay_between_requests = 10, previous_status = None\<rparr>"
        "[''device_mode'' \<mapsto> PyStr ''Unknown'']"]
  by (simp add: example_defs poll_defs)

text \<open>
  C4. While the device client reports polling paused for the current address, a poll
  returns the stored record, leaves the coordinator (and so both tier timestamps) as
  it was, and makes no fetch.
\<close>

theorem paused_poll_is_noop:
  assumes "is_polling_paused client (device_ip s)"
  shows "\<exists>tr. async_update_data client port now s =
           (Inr (case data s of None \<Rightarrow> Map.empty | Some d \<Rightarrow> d), s, tr) \<and>
         fetches tr = []"
  using poll_paused [OF assms] by (simp add: data_or_empty_eq)

theorem paused_poll_is_noop_witness:
  "is_polling_paused (client_returning True (Raised (OSError ''unreachable'')))
     (device_ip (example_coordinator\<lparr>data := Some [''device_mode'' \<mapsto> PyStr ''Auto'']\<rparr>)) \<and>
   (\<exists>tr. async_update_data (client_returning True (Raised (OSError ''unreachable'')))
            30000 1000
            (example_coordinator\<lparr>data := Some [''device_mode'' \<mapsto> PyStr ''Auto'']\<rparr>) =
          (Inr [''device_mode'' \<mapsto> PyStr ''Auto''],
           example_coordinator\<lparr>data := Some [''device_mode'' \<mapsto> PyStr ''Auto'']\<rparr>, tr) \<and>
          fetches tr = [])"
  using paused_poll_is_noop
    [of "client_returning True (Raised (OSError ''unreachable''))"
        "example_coordinator\<lparr>data := Some [''device_mode'' \<mapsto> PyStr ''Auto'']\<rparr>"
        30000 1000]
  by (simp add: client_returning_def)

text \<open>
  C10. A paused poll of a coordinator that holds no record yet returns the empty
  dictionary, as a normal return.
\<close>

theorem paused_poll_without_record:
  assumes "is_polling_paused client (device_ip s)" and "data s = None"
  shows "fst (async_update_data client port now s) = Inr Map.empty"
  using poll_paused [OF assms(1)] assms(2) by (simp add: data_or_empty_def)

theorem paused_poll_without_record_witness:
  "is_polling_paused (client_returning True (Raised (OSError ''unreachable'')))
     (device_ip example_coordinator) \<and>
   data example_coordinator = None \<and>
   fst (async_update_data (client_returning True (Raised (OSError ''unreachable'')))
          30000 1000 example_coordinator) = Inr Map.empty"
  using paused_poll_without_record
    [of "client_returning True (Raised (OSError ''unreachable''))" example_coordinator
        30000 1000]
  by (simp add: client_returning_def example_coordinator_def)

text \<open>
  C5, as the code has it. An exception raised by the fetch is caught exactly when it is
  a \<^verbatim>\<open>TimeoutError\<close>, an \<^verbatim>\<open>OSError\<close> or a \<^verbatim>\<open>ValueError\<close>: then the poll raises
  \<^verbatim>\<open>UpdateFailed\<close> with that exception as its cause. An exception of any other class
  propagates out of the poll unchanged.
\<close>

theorem transport_failure_is_update_failed:
  assumes "\<not> is_polling_paused client (device_ip s)"
    and "fetches (snd (snd (async_update_data client port now s))) = [r]"
    and "get_device_status client r = Raised err"
  shows "fst (async_update_data client port now s) =
           (if (\<exists>m. err = TimeoutError m \<or> err = OSError m \<or> err = ValueError m)
            then Inl (UpdateFailed (''Polling failed for '' @ device_ip s) err)
            else Inl (Uncaught err))"
proof -
  from assms(1,2) have r: "r = tier_request port now s"
    using poll_fetches [of client s port now] by simp
  have "caught err \<longleftrightarrow> (\<exists>m. err = TimeoutError m \<or> err = OSError m \<or> err = ValueError m)"
    by (cases err) auto
  with poll_raised [OF assms(1), of port now err] assms(3) r show ?thesis
    by (simp add: handle_exception_def)
qed

theorem transport_failure_is_update_failed_witness:
  "\<not> is_polling_paused (client_returning False (Raised (OSError ''unreachable'')))
        (device_ip example_coordinator) \<and>
   fetches (snd (snd (async_update_data
       (client_returning False (Raised (OSError ''unreachable'')))
       30000 1000 example_coordinator))) =
     [\<lparr>req_ip = ''10.0.0.7'', req_port = 30000, req_timeout = 10,
       include_pv = True, include_wifi = True, include_em = True, include_bat = True,
       delay_between_requests = 10, previous_status = None\<rparr>] \<and>
   get_device_status (client_returning False (Raised (OSError ''unreachable'')))
     \<lparr>req_ip = ''10.0.0.7'', req_port = 30000, req_timeout = 10,
       include_pv = True, include_wifi = True, include_em = True, include_bat = True,
       delay_between_requests = 10, previous_status = None\<rparr> =
     Raised (OSError ''unreachable'') \<and>
   fst (async_update_data (client_returning False (Raised (OSError ''unreachable'')))
          30000 1000 example_coordinator) =
     Inl (UpdateFailed ''Polling failed for 10.0.0.7'' (OSError ''unreachable''))"
  using transport_failure_is_update_failed
    [of "client_returning False (Raised (OSError ''unreachable''))"
        example_coordinator 30000 1000
        "\<lparr>req_ip = ''10.0.0.7'', req_port = 30000, req_timeout = 10,
          include_pv = True, include_wifi = True, include_em = True, include_bat = True,
          delay_between_requests = 10, previous_status = None\<rparr>"
        "OSError ''unreachable''"]
  by (simp add: example_defs poll_defs)

text \<open>
  C5, as stated, fails: a \<^verbatim>\<open>KeyError\<close> raised by the fetch is not one of the classes
  the \<^verbatim>\<open>except\<close> clause names, and it leaves the poll uncaught.
\<close>

theorem uncaught_fetch_exception_counterexample:
  "fst (async_update_data (client_returning False (Raised (KeyError ''result'')))
          30000 1000 example_coordinator) = Inl (Uncaught (KeyError ''result''))"
  by (simp add: example_defs poll_defs)

text \<open>
  C2. A poll at time 1000 whose fetch returns a record with \<^verbatim>\<open>device_mode\<close>
  \<^verbatim>\<open>"Unknown"\<close> raises \<^verbatim>\<open>UpdateFailed\<close>, and yet both tier timestamps have moved from 0
  to 1000: they are assigned before the record is validated.
\<close>

theorem unknown_mode_failure_advances_timestamps:
  "fst (async_update_data
          (client_returning False (Returned [''device_mode'' \<mapsto> PyStr ''Unknown'']))
          30000 1000 example_coordinator) =
     Inl (UpdateFailed ''Polling failed for 10.0.0.7''
            (TimeoutError ''No valid data received from device at 10.0.0.7'')) \<and>
   last_pv_fetch example_coordinator = 0 \<and>
   last_slow_fetch example_coordinator = 0 \<and>
   last_pv_fetch (fst (snd (async_update_data
          (client_returning False (Returned [''device_mode'' \<mapsto> PyStr ''Unknown'']))
          30000 1000 example_coordinator))) = 1000 \<and>
   last_slow_fetch (fst (snd (async_update_data
          (client_returning False (Returned [''device_mode'' \<mapsto> PyStr ''Unknown'']))
          30000 1000 example_coordinator))) = 1000"
  by (simp add: example_defs poll_defs)

section \<open>Properties of the string operations\<close>

lemma str_contains_iff_sublist: "str_contains sub s \<longleftrightarrow> sublist sub s"
  by (induction s) (auto simp: sublist_Cons_right)

lemma replace_scan_absent: "\<not> str_contains old s \<Longrightarrow> replace_scan old new s = s"
  by (induction old new s rule: replace_scan.induct) auto

lemma str_replace_absent: "\<not> str_contains old s \<Longrightarrow> str_replace s old new = s"
  by (cases "old = []") (auto simp: str_replace_def replace_scan_absent str_contains_iff_sublist)

lemma replace_scan_length_ge:
  "length old \<le> length new \<Longrightarrow> length s \<le> length (replace_scan old new s)"
proof (induction old new s rule: replace_scan.induct)
  case (1 old new)
  then show ?case by simp
next
  case (2 old new c cs)
  show ?case
  proof (cases "old \<noteq> [] \<and> prefix old (c # cs)")
    case True
    then have "length old \<le> length (c # cs)" by (auto dest: prefix_length_le)
    with 2 True show ?thesis by simp
  next
    case False
    with 2 show ?thesis by auto
  qed
qed

lemma replace_scan_length_le:
  "length new \<le> length old \<Longrightarrow> length (replace_scan old new s) \<le> length s"
proof (induction old new s rule: replace_scan.induct)
  case (1 old new)
  then show ?case by simp
next
  case (2 old new c cs)
  show ?case
  proof (cases "old \<noteq> [] \<and> prefix old (c # cs)")
    case True
    then have "length old \<le> length (c # cs)" by (auto dest: prefix_length_le)
    with 2 True show ?thesis by simp
  next
    case False
    with 2 show ?thesis by auto
  qed
qed

lemma replace_scan_longer:
  "length old < length new \<Longrightarrow> old \<noteq> [] \<Longrightarrow> str_contains old s \<Longrightarrow>
   length s < length (replace_scan old new s)"
proof (induction old new s rule: replace_scan.induct)
  case (1 old new)
  then show ?case by simp
next
  case (2 old new c cs)
  note lt = "2.prems"(1) and ne = "2.prems"(2)
  show ?case
  proof (cases "prefix old (c # cs)")
    case True
    then have "length old \<le> length (c # cs)" by (auto dest: prefix_length_le)
    moreover have "length (drop (length old) (c # cs))
        \<le> length (replace_scan old new (drop (length old) (c # cs)))"
      using lt by (intro replace_scan_length_ge) simp
    ultimately show ?thesis using True lt ne by simp
  next
    case False
    with 2 show ?thesis by auto
  qed
qed

lemma replace_scan_shorter:
  "length new < length old \<Longrightarrow> str_contains old s \<Longrightarrow>
   length (replace_scan old new s) < length s"
proof (induction old new s rule: replace_scan.induct)
  case (1 old new)
  then show ?case by simp
next
  case (2 old new c cs)
  note lt = "2.prems"(1)
  then have ne: "old \<noteq> []" by auto
  show ?case
  proof (cases "prefix old (c # cs)")
    case True
    then have "length old \<le> length (c # cs)" by (auto dest: prefix_length_le)
    moreover have "length (replace_scan old new (drop (length old) (c # cs)))
        \<le> length (drop (length old) (c # cs))"
      using lt by (intro replace_scan_length_le) simp
    ultimately show ?thesis using True ne lt by simp
  next
    case False
    with 2 show ?thesis by auto
  qed
qed

lemma replace_scan_same_length:
  "length new = length old \<Longrightarrow> new \<noteq> old \<Longrightarrow> str_contains old s \<Longrightarrow>
   replace_scan old new s \<noteq> s"
proof (induction old new s rule: replace_scan.induct)
  case (1 old new)
  then show ?case by auto
next
  case (2 old new c cs)
  then have ne: "old \<noteq> []" by auto
  show ?case
  proof (cases "prefix old (c # cs)")
    case True
    then obtain t where t: "c # cs = old @ t" by (auto simp: prefix_def)
    have "replace_scan old new (c # cs) =
        new @ replace_scan old new (drop (length old) (c # cs))"
      using True ne by simp
    also have "drop (length old) (c # cs) = t"
      unfolding t by simp
    finally show ?thesis using t 2(3,4) by auto
  next
    case False
    with 2 show ?thesis by auto
  qed
qed

lemma str_replace_changes:
  assumes "new \<noteq> old" and "str_contains old s"
  shows "str_replace s old new \<noteq> s"
proof (cases "old = []")
  case True
  with assms(1) have "new \<noteq> []" by simp
  then have "length s < length (new @ concat (map (\<lambda>c. c # new) s))"
    by (induction s) (auto simp: neq_Nil_conv)
  then have "new @ concat (map (\<lambda>c. c # new) s) \<noteq> s"
    by (metis less_irrefl)
  with True show ?thesis by (simp add: str_replace_def)
next
  case False
  consider "length old < length new" | "length new < length old" | "length new = length old"
    by linarith
  then have "replace_scan old new s \<noteq> s"
  proof cases
    case 1
    from replace_scan_longer [OF 1 False assms(2)] show ?thesis by auto
  next
    case 2
    from replace_scan_shorter [OF 2 assms(2)] show ?thesis by auto
  next
    case 3
    from replace_scan_same_length [OF 3 assms] show ?thesis .
  qed
  with False show ?thesis by (simp add: str_replace_def)
qed

section \<open>Properties of the registry updates\<close>

lemma async_update_entity_present:
  "eid \<in> entity_id ` set reg \<Longrightarrow>
   async_update_entity eid n reg =
     Inr (map (\<lambda>e. if entity_id e = eid then e\<lparr>ent_name := Some n\<rparr> else e) reg)"
  by (simp add: async_update_entity_def)

lemma async_update_device_present:
  "did \<in> dev_id ` set devs \<Longrightarrow>
   async_update_device did n devs =
     Inr (map (\<lambda>d. if dev_id d = did then d\<lparr>dev_name := Some n\<rparr> else d) devs)"
  by (simp add: async_update_device_def)

lemma map_entity_id_update:
  "map entity_id (map (\<lambda>e. if entity_id e = eid then e\<lparr>ent_name := Some n\<rparr> else e) reg)
     = map entity_id reg"
  by (induction reg) auto

lemma update_entities_total:
  "entity_id ` set es \<subseteq> entity_id ` set reg \<Longrightarrow>
   \<exists>reg' c tr. update_entities new_ip old_ip es reg cnt = Inr (reg', c, tr) \<and>
               map entity_id reg' = map entity_id reg"
proof (induction es arbitrary: reg cnt)
  case Nil
  then show ?case by simp
next
  case (Cons e es)
  show ?case
  proof (cases "name_matches old_ip (ent_name e)")
    case False
    with Cons show ?thesis by simp
  next
    case True
    let ?n = "str_replace (the (ent_name e)) old_ip new_ip"
    let ?reg1 = "map (\<lambda>x. if entity_id x = entity_id e then x\<lparr>ent_name := Some ?n\<rparr> else x) reg"
    from Cons.prems have upd: "async_update_entity (entity_id e) ?n reg = Inr ?reg1"
      by (intro async_update_entity_present) auto
    have ids: "map entity_id ?reg1 = map entity_id reg"
      by (rule map_entity_id_update)
    then have "entity_id ` set ?reg1 = entity_id ` set reg"
      by (metis list.set_map)
    with Cons.prems have "entity_id ` set es \<subseteq> entity_id ` set ?reg1" by auto
    from Cons.IH [OF this, of "cnt + 1"] obtain reg' c tr where
      "update_entities new_ip old_ip es ?reg1 (cnt + 1) = Inr (reg', c, tr)"
      "map entity_id reg' = map entity_id ?reg1" by blast
    with True upd ids show ?thesis by (simp add: Let_def)
  qed
qed


lemma update_entities_exact:
  assumes "distinct (map entity_id reg)" and "set es \<subseteq> set reg" and "distinct es"
  shows "\<exists>tr. update_entities new_ip old_ip es reg cnt =
     Inr (map (\<lambda>x. if x \<in> set es \<and> name_matches old_ip (ent_name x)
                    then x\<lparr>ent_name := Some (str_replace (the (ent_name x)) old_ip new_ip)\<rparr>
                    else x) reg,
          cnt + length (filter (\<lambda>e. name_matches old_ip (ent_name e)) es), tr) \<and>
     logged_counts tr = [] \<and> (\<forall>i n. DevUpdate i n \<notin> set tr)"
  using assms
proof (induction es arbitrary: reg cnt)
  case Nil
  then show ?case by (simp add: map_idI)
next
  case (Cons e es)
  have inj: "inj_on entity_id (set reg)"
    using Cons.prems(1) by (simp add: distinct_map)
  have e_in: "e \<in> set reg" and es_in: "set es \<subseteq> set reg"
    and e_notin: "e \<notin> set es" and es_dist: "distinct es"
    using Cons.prems by auto
  show ?case
  proof (cases "name_matches old_ip (ent_name e)")
    case False
    from Cons.IH [OF Cons.prems(1) es_in es_dist, of cnt] obtain tr where
      tr: "update_entities new_ip old_ip es reg cnt =
         Inr (map (\<lambda>x. if x \<in> set es \<and> name_matches old_ip (ent_name x)
                    then x\<lparr>ent_name := Some (str_replace (the (ent_name x)) old_ip new_ip)\<rparr>
                    else x) reg,
          cnt + length (filter (\<lambda>e. name_matches old_ip (ent_name e)) es), tr)"
      "logged_counts tr = []" "\<forall>i n. DevUpdate i n \<notin> set tr" by blast
    have "map (\<lambda>x. if x \<in> set es \<and> name_matches old_ip (ent_name x)
                    then x\<lparr>ent_name := Some (str_replace (the (ent_name x)) old_ip new_ip)\<rparr>
                    else x) reg =
          map (\<lambda>x. if x \<in> set (e # es) \<and> name_matches old_ip (ent_name x)
                    then x\<lparr>ent_name := Some (str_replace (the (ent_name x)) old_ip new_ip)\<rparr>
                    else x) reg"
      using False by (intro map_cong) auto
    with tr False show ?thesis by simp
  next
    case True
    let ?n = "str_replace (the (ent_name e)) old_ip new_ip"
    let ?u = "\<lambda>x. if entity_id x = entity_id e then x\<lparr>ent_name := Some ?n\<rparr> else x"
    let ?reg1 = "map ?u reg"
    have upd: "async_update_entity (entity_id e) ?n reg = Inr ?reg1"
      using e_in by (intro async_update_entity_present) auto
    have ids: "map entity_id ?reg1 = map entity_id reg"
      by (rule map_entity_id_update)
    have d1: "distinct (map entity_id ?reg1)"
      using Cons.prems(1) by (simp only: ids)
    have other: "entity_id x \<noteq> entity_id e" if "x \<in> set es" for x
      using that inj e_in es_in e_notin by (auto dest: inj_onD)
    have in1: "set es \<subseteq> set ?reg1"
    proof
      fix x assume x: "x \<in> set es"
      then have "?u x = x" using other by simp
      moreover have "x \<in> set reg" using x es_in by auto
      ultimately show "x \<in> set ?reg1" by force
    qed
    from Cons.IH [OF d1 in1 es_dist, of "cnt + 1"] obtain tr where
      tr: "update_entities new_ip old_ip es ?reg1 (cnt + 1) =
         Inr (map (\<lambda>x. if x \<in> set es \<and> name_matches old_ip (ent_name x)
                    then x\<lparr>ent_name := Some (str_replace (the (ent_name x)) old_ip new_ip)\<rparr>
                    else x) ?reg1,
          cnt + 1 + length (filter (\<lambda>e. name_matches old_ip (ent_name e)) es), tr)"
      "logged_counts tr = []" "\<forall>i n. DevUpdate i n \<notin> set tr" by blast
    have "map (\<lambda>x. if x \<in> set es \<and> name_matches old_ip (ent_name x)
                    then x\<lparr>ent_name := Some (str_replace (the (ent_name x)) old_ip new_ip)\<rparr>
                    else x) ?reg1 =
          map (\<lambda>x. if x \<in> set (e # es) \<and> name_matches old_ip (ent_name x)
                    then x\<lparr>ent_name := Some (str_replace (the (ent_name x)) old_ip new_ip)\<rparr>
                    else x) reg"
      unfolding map_map
    proof (intro map_cong refl)
      fix x assume x: "x \<in> set reg"
      show "((\<lambda>x. if x \<in> set es \<and> name_matches old_ip (ent_name x)
                    then x\<lparr>ent_name := Some (str_replace (the (ent_name x)) old_ip new_ip)\<rparr>
                    else x) \<circ> ?u) x =
            (if x \<in> set (e # es) \<and> name_matches old_ip (ent_name x)
                    then x\<lparr>ent_name := Some (str_replace (the (ent_name x)) old_ip new_ip)\<rparr>
                    else x)"
      proof (cases "entity_id x = entity_id e")
        case same: True
        then have xe: "x = e" using inj x e_in by (auto dest: inj_onD)
        have "e\<lparr>ent_name := Some ?n\<rparr> \<notin> set es"
          using other [of "e\<lparr>ent_name := Some ?n\<rparr>"] by auto
        with xe True show ?thesis by simp
      next
        case False
        then have "x \<noteq> e" by auto
        with False show ?thesis by simp
      qed
    qed
    with tr upd True show ?thesis by (simp add: Let_def)
  qed
qed

lemma async_get_device_SomeD:
  "async_get_device devs ident = Some d \<Longrightarrow> d \<in> set devs"
  by (auto simp: async_get_device_def find_Some_iff)

lemma update_device_name_exact:
  assumes "distinct (map dev_id devs)"
  shows "\<exists>tr. update_device_name domain new_ip old_ip ce devs =
           Inr (map (renamed_device new_ip old_ip (found_device domain ce devs)) devs, tr) \<and>
         logged_counts tr = [] \<and>
         (found_device domain ce devs = None \<longrightarrow> (\<forall>i n. DevUpdate i n \<notin> set tr))"
proof (cases "found_device domain ce devs")
  case None
  then have "map (renamed_device new_ip old_ip (found_device domain ce devs)) devs = devs"
    by (simp add: renamed_device_def map_idI)
  with None show ?thesis
    by (auto simp: update_device_name_def found_device_def split: option.splits if_splits)
next
  case (Some device)
  then obtain ident where ident: "device_identifier ce = Some ident" "ident \<noteq> []"
    "async_get_device devs (domain, ident) = Some device"
    by (auto simp: found_device_def split: option.splits if_splits)
  then have mem: "device \<in> set devs" by (auto dest: async_get_device_SomeD)
  have inj: "inj_on dev_id (set devs)" using assms by (simp add: distinct_map)
  show ?thesis
  proof (cases "name_matches old_ip (dev_name device)")
    case False
    then have "map (renamed_device new_ip old_ip (Some device)) devs = devs"
      by (intro map_idI) (auto simp: renamed_device_def)
    with False Some ident show ?thesis by (simp add: update_device_name_def)
  next
    case True
    let ?n = "str_replace (the (dev_name device)) old_ip new_ip"
    have "async_update_device (dev_id device) ?n devs =
        Inr (map (\<lambda>d. if dev_id d = dev_id device then d\<lparr>dev_name := Some ?n\<rparr> else d) devs)"
      using mem by (intro async_update_device_present) auto
    moreover have "map (\<lambda>d. if dev_id d = dev_id device then d\<lparr>dev_name := Some ?n\<rparr> else d) devs
        = map (renamed_device new_ip old_ip (Some device)) devs"
      using inj mem True by (intro map_cong) (auto simp: renamed_device_def dest: inj_onD)
    ultimately show ?thesis using True Some ident
      by (simp add: update_device_name_def Let_def)
  qed
qed

lemma update_device_name_total:
  "\<exists>devs' tr. update_device_name domain new_ip old_ip ce devs = Inr (devs', tr)"
proof (cases "found_device domain ce devs")
  case None
  then show ?thesis
    by (auto simp: update_device_name_def found_device_def split: option.splits if_splits)
next
  case (Some device)
  then obtain ident where ident: "device_identifier ce = Some ident" "ident \<noteq> []"
    "async_get_device devs (domain, ident) = Some device"
    by (auto simp: found_device_def split: option.splits if_splits)
  then have mem: "device \<in> set devs" by (auto dest: async_get_device_SomeD)
  then have "dev_id device \<in> dev_id ` set devs" by auto
  from async_update_device_present [OF this] ident show ?thesis
    by (simp add: update_device_name_def Let_def)
qed

lemma update_entity_names_total:
  "\<exists>regs' tr. update_entity_names domain new_ip old_ip s regs = Inr (regs', tr)"
proof (cases "config_entry s")
  case None
  then show ?thesis by (simp add: update_entity_names_def)
next
  case (Some ce)
  obtain devs' tr1 where d: "update_device_name domain new_ip old_ip ce (devices regs) = Inr (devs', tr1)"
    using update_device_name_total by blast
  have "entity_id ` set (async_entries_for_config_entry (entities regs) (entry_id ce))
      \<subseteq> entity_id ` set (entities regs)"
    by (auto simp: async_entries_for_config_entry_def)
  from update_entities_total [OF this, of new_ip old_ip 0] obtain ents' c tr2 where
    "update_entities new_ip old_ip (async_entries_for_config_entry (entities regs) (entry_id ce))
       (entities regs) 0 = Inr (ents', c, tr2)" by blast
  with Some d show ?thesis by (simp add: update_entity_names_def Let_def)
qed

lemma logged_counts_append: "logged_counts (xs @ ys) = logged_counts xs @ logged_counts ys"
  by (induction xs rule: logged_counts.induct) simp_all

lemma update_entity_names_exact:
  assumes ce: "config_entry s = Some ce"
    and dd: "distinct (map dev_id (devices regs))"
    and de: "distinct (map entity_id (entities regs))"
  shows "\<exists>tr. update_entity_names domain new_ip old_ip s regs =
           Inr (\<lparr>devices = map (renamed_device new_ip old_ip
                                  (found_device domain ce (devices regs))) (devices regs),
                 entities = map (renamed_entity new_ip old_ip (entry_id ce)) (entities regs)\<rparr>,
                tr) \<and>
         logged_counts tr =
           (if 0 < length (filter (\<lambda>e. ent_config_entry_id e = entry_id ce \<and>
                                        name_matches old_ip (ent_name e)) (entities regs))
            then [length (filter (\<lambda>e. ent_config_entry_id e = entry_id ce \<and>
                                        name_matches old_ip (ent_name e)) (entities regs))]
            else []) \<and>
         (found_device domain ce (devices regs) = None \<longrightarrow> (\<forall>i n. DevUpdate i n \<notin> set tr))"
proof -
  let ?es = "async_entries_for_config_entry (entities regs) (entry_id ce)"
  let ?k = "length (filter (\<lambda>e. ent_config_entry_id e = entry_id ce \<and>
                                name_matches old_ip (ent_name e)) (entities regs))"
  from update_device_name_exact [OF dd, of domain new_ip old_ip ce] obtain tr1 where
    d: "update_device_name domain new_ip old_ip ce (devices regs) =
          Inr (map (renamed_device new_ip old_ip (found_device domain ce (devices regs)))
                 (devices regs), tr1)"
    and l1: "logged_counts tr1 = []"
    and n1: "found_device domain ce (devices regs) = None \<longrightarrow> (\<forall>i n. DevUpdate i n \<notin> set tr1)"
    by (elim exE conjE) (rule that)
  have sub: "set ?es \<subseteq> set (entities regs)"
    by (auto simp: async_entries_for_config_entry_def)
  have "distinct (entities regs)"
    using de by (simp add: distinct_map)
  then have dist: "distinct ?es"
    by (simp add: async_entries_for_config_entry_def)
  from update_entities_exact [OF de sub dist, of new_ip old_ip 0] obtain tr2 where
    e: "update_entities new_ip old_ip ?es (entities regs) 0 =
          Inr (map (\<lambda>x. if x \<in> set ?es \<and> name_matches old_ip (ent_name x)
                    then x\<lparr>ent_name := Some (str_replace (the (ent_name x)) old_ip new_ip)\<rparr>
                    else x) (entities regs),
               0 + length (filter (\<lambda>e. name_matches old_ip (ent_name e)) ?es), tr2)"
    and l2: "logged_counts tr2 = []" and n2: "\<forall>i n. DevUpdate i n \<notin> set tr2"
    by (elim exE conjE) (rule that)
  have m: "map (\<lambda>x. if x \<in> set ?es \<and> name_matches old_ip (ent_name x)
                    then x\<lparr>ent_name := Some (str_replace (the (ent_name x)) old_ip new_ip)\<rparr>
                    else x) (entities regs) =
           map (renamed_entity new_ip old_ip (entry_id ce)) (entities regs)"
    by (intro map_cong refl) (simp add: renamed_entity_def async_entries_for_config_entry_def)
  have k: "length (filter (\<lambda>e. name_matches old_ip (ent_name e)) ?es) = ?k"
    by (simp add: async_entries_for_config_entry_def)
  have res: "update_entity_names domain new_ip old_ip s regs =
      Inr (\<lparr>devices = map (renamed_device new_ip old_ip
                             (found_device domain ce (devices regs))) (devices regs),
            entities = map (renamed_entity new_ip old_ip (entry_id ce)) (entities regs)\<rparr>,
           tr1 @ [EntRegistryGet, EntList (entry_id ce)] @ tr2 @
           (if ?k > 0 then [Log (LogUpdatedCount ?k old_ip new_ip)] else []))"
    using ce d e unfolding m k by (simp add: update_entity_names_def)
  have "logged_counts (tr1 @ [EntRegistryGet, EntList (entry_id ce)] @ tr2 @
           (if ?k > 0 then [Log (LogUpdatedCount ?k old_ip new_ip)] else [])) =
        (if 0 < ?k then [?k] else [])"
    using l1 l2 by (simp add: logged_counts_append)
  moreover have "found_device domain ce (devices regs) = None \<longrightarrow>
      (\<forall>i n. DevUpdate i n \<notin> set (tr1 @ [EntRegistryGet, EntList (entry_id ce)] @ tr2 @
           (if ?k > 0 then [Log (LogUpdatedCount ?k old_ip new_ip)] else [])))"
    using n1 n2 by simp
  ultimately show ?thesis using res by (intro exI conjI) assumption+
qed

lemma changed_names_map:
  "changed_names (map f xs) (map g xs) = length (filter (\<lambda>x. f x \<noteq> g x) xs)"
  by (induction xs) (simp_all add: changed_names_def)

lemma renamed_entity_changes:
  assumes "new_ip \<noteq> old_ip"
  shows "ent_name (renamed_entity new_ip old_ip cid e) \<noteq> ent_name e \<longleftrightarrow>
         ent_config_entry_id e = cid \<and> name_matches old_ip (ent_name e)"
proof (cases "ent_name e")
  case None
  then show ?thesis by (simp add: renamed_entity_def)
next
  case (Some n)
  with assms str_replace_changes [of new_ip old_ip n] show ?thesis
    by (auto simp: renamed_entity_def)
qed

lemma changed_entity_names:
  assumes "new_ip \<noteq> old_ip"
  shows "changed_names (map ent_name reg)
           (map ent_name (map (renamed_entity new_ip old_ip cid) reg)) =
         length (filter (\<lambda>e. ent_config_entry_id e = cid \<and> name_matches old_ip (ent_name e)) reg)"
proof -
  have "changed_names (map ent_name reg)
           (map (\<lambda>e. ent_name (renamed_entity new_ip old_ip cid e)) reg) =
        length (filter (\<lambda>e. ent_name e \<noteq> ent_name (renamed_entity new_ip old_ip cid e)) reg)"
    by (rule changed_names_map)
  also have "\<dots> = length (filter (\<lambda>e. ent_config_entry_id e = cid \<and>
                                      name_matches old_ip (ent_name e)) reg)"
    using renamed_entity_changes [OF assms, of cid]
    by (intro arg_cong [where f = length] filter_cong refl) metis
  finally show ?thesis by (simp add: comp_def)
qed

section \<open>Properties of rebinding\<close>

lemmas rebind_eval =
  update_entity_names_def update_device_name_def device_identifier_def py_or_def
  async_get_device_def async_update_device_def async_entries_for_config_entry_def
  async_update_entity_def str_replace_def example_coordinator_def example_entry_def
  example_registries_def Let_def

lemma example_rename:
  "update_entity_names ''marstek'' ''10.0.0.8'' ''10.0.0.7'' example_coordinator
     example_registries = Inr (renamed_registries, rename_trace)"
  by (simp add: rebind_eval renamed_registries_def rename_trace_def)

lemma renamed_device_none: "map (renamed_device new_ip old_ip None) devs = devs"
  by (simp add: renamed_device_def map_idI)

lemma renamed_entity_untouched:
  "\<not> name_matches old_ip (ent_name e) \<Longrightarrow> renamed_entity new_ip old_ip cid e = e"
  by (simp add: renamed_entity_def)

lemma rebind_same_address_is_noop_aux:
  assumes "dict_get (entry_data entry) CONF_HOST (initial_device_ip s) = initial_device_ip s"
  shows "async_config_entry_updated domain entry s regs = Inr (s, regs, [])"
  using assms by (simp add: async_config_entry_updated_def split: option.split)

lemma rebind_changed:
  assumes "config_entry s = Some own"
    and "dict_get (entry_data entry) CONF_HOST (initial_device_ip s) = new_ip"
    and "new_ip \<noteq> initial_device_ip s"
    and "update_entity_names domain new_ip (initial_device_ip s) s regs = Inr (regs', tr)"
  shows "async_config_entry_updated domain entry s regs =
           Inr (s\<lparr>initial_device_ip := new_ip\<rparr>, regs',
                Log (LogIpChanged (initial_device_ip s) new_ip) # tr)"
  using assms by (simp add: async_config_entry_updated_def Let_def)

lemma rebinding_defs:
  "config_entry rebinding_coordinator = Some moved_entry"
  "initial_device_ip rebinding_coordinator = ''10.0.0.7''"
  "device_ip rebinding_coordinator = ''10.0.0.8''"
  "device_ip rebound_coordinator = ''10.0.0.8''"
  "initial_device_ip rebound_coordinator = ''10.0.0.8''"
  by (simp_all add: rebinding_coordinator_def rebound_coordinator_def example_coordinator_def
      moved_entry_def device_ip_def dict_get_def CONF_HOST_def)

lemma rebinding_rename:
  "update_entity_names ''marstek'' ''10.0.0.8'' ''10.0.0.7'' rebinding_coordinator
     example_registries = Inr (renamed_registries, rename_trace)"
  by (simp add: rebind_eval rebinding_coordinator_def moved_entry_def renamed_registries_def
      rename_trace_def)

text \<open>
  C6, as the code has it. For differing addresses, and registries whose ids are distinct,
  \<^verbatim>\<open>_update_entity_names\<close> replaces \<open>old_ip\<close> by \<open>new_ip\<close> in the name of the device
  found for the config entry's identifier and in the name of every entity of the config
  entry, wherever that name is non-empty and contains \<open>old_ip\<close>, and leaves every other
  record as it was. It returns nothing; the count it logs, and only when positive, is
  the number of entity names that changed.
\<close>

theorem rebind_renames_matching_records:
  assumes "config_entry s = Some ce"
    and "distinct (map dev_id (devices regs))"
    and "distinct (map entity_id (entities regs))"
    and "new_ip \<noteq> old_ip"
    and "regs' = \<lparr>devices = map (renamed_device new_ip old_ip
                                   (found_device domain ce (devices regs))) (devices regs),
                  entities = map (renamed_entity new_ip old_ip (entry_id ce)) (entities regs)\<rparr>"
    and "k = changed_names (map ent_name (entities regs)) (map ent_name (entities regs'))"
  shows "\<exists>tr. update_entity_names domain new_ip old_ip s regs = Inr (regs', tr) \<and>
              logged_counts tr = (if 0 < k then [k] else [])"
proof -
  have k: "k = length (filter (\<lambda>e. ent_config_entry_id e = entry_id ce \<and>
                                   name_matches old_ip (ent_name e)) (entities regs))"
    using changed_entity_names [OF assms(4), of "entities regs" "entry_id ce"] assms(5,6)
    by simp
  from update_entity_names_exact [OF assms(1-3), of domain new_ip old_ip]
  obtain tr where
    "update_entity_names domain new_ip old_ip s regs =
       Inr (\<lparr>devices = map (renamed_device new_ip old_ip
                              (found_device domain ce (devices regs))) (devices regs),
             entities = map (renamed_entity new_ip old_ip (entry_id ce)) (entities regs)\<rparr>,
            tr)"
    "logged_counts tr =
       (if 0 < length (filter (\<lambda>e. ent_config_entry_id e = entry_id ce \<and>
                                    name_matches old_ip (ent_name e)) (entities regs))
        then [length (filter (\<lambda>e. ent_config_entry_id e = entry_id ce \<and>
                                    name_matches old_ip (ent_name e)) (entities regs))]
        else [])"
    by (elim exE conjE) (rule that)
  then show ?thesis unfolding k assms(5) by (intro exI conjI) assumption+
qed

theorem rebind_renames_matching_records_witness:
  "config_entry example_coordinator = Some example_entry \<and>
   distinct (map dev_id (devices example_registries)) \<and>
   distinct (map entity_id (entities example_registries)) \<and>
   ''10.0.0.8'' \<noteq> ''10.0.0.7'' \<and>
   (\<exists>tr. update_entity_names ''marstek'' ''10.0.0.8'' ''10.0.0.7'' example_coordinator
            example_registries = Inr (renamed_registries, tr) \<and>
         logged_counts tr = [1])"
proof -
  have h1: "config_entry example_coordinator = Some example_entry"
    by (simp add: example_coordinator_def)
  have h2: "distinct (map dev_id (devices example_registries))"
    by (simp add: example_registries_def)
  have h3: "distinct (map entity_id (entities example_registries))"
    by (simp add: example_registries_def)
  have h4: "''10.0.0.8'' \<noteq> ''10.0.0.7''" by simp
  have h5: "renamed_registries =
      \<lparr>devices = map (renamed_device ''10.0.0.8'' ''10.0.0.7''
                        (found_device ''marstek'' example_entry (devices example_registries)))
                   (devices example_registries),
       entities = map (renamed_entity ''10.0.0.8'' ''10.0.0.7'' (entry_id example_entry))
                    (entities example_registries)\<rparr>"
    by (simp add: renamed_registries_def example_registries_def example_entry_def
        renamed_device_def renamed_entity_def found_device_def device_identifier_def
        py_or_def async_get_device_def str_replace_def)
  have h6: "1 = changed_names (map ent_name (entities example_registries))
                  (map ent_name (entities renamed_registries))"
    by (simp add: changed_names_def example_registries_def renamed_registries_def)
  from rebind_renames_matching_records [OF h1 h2 h3 h4 h5 h6]
  show ?thesis using h1 h2 h3 by simp
qed

text \<open>
  C6, as stated, fails: rebinding the example registries from 10.0.0.7 to 10.0.0.8
  changes two naming records, the device name and one entity name, while the count the
  method reports is 1.
\<close>

theorem rebind_count_counterexample:
  "update_entity_names ''marstek'' ''10.0.0.8'' ''10.0.0.7'' example_coordinator
     example_registries = Inr (renamed_registries, rename_trace) \<and>
   records_changed example_registries renamed_registries = 2 \<and>
   logged_counts rename_trace = [1]"
proof -
  have "records_changed example_registries renamed_registries = 2"
    by (simp add: records_changed_def changed_names_def example_registries_def
        renamed_registries_def)
  moreover have "logged_counts rename_trace = [1]"
    by (simp add: rename_trace_def)
  ultimately show ?thesis using example_rename by simp
qed

text \<open>
  C7. A notification whose host equals the address the coordinator compares with (also
  one that carries no host) changes nothing: same coordinator, same registries, no
  registry call and no log message.
\<close>

theorem rebind_same_address_is_noop:
  assumes "dict_get (entry_data entry) CONF_HOST (initial_device_ip s) = initial_device_ip s"
  shows "async_config_entry_updated domain entry s regs = Inr (s, regs, [])"
  using assms by (simp add: async_config_entry_updated_def split: option.split)

theorem rebind_same_address_is_noop_witness:
  "dict_get (entry_data example_entry) CONF_HOST (initial_device_ip example_coordinator) =
     initial_device_ip example_coordinator \<and>
   async_config_entry_updated ''marstek'' example_entry example_coordinator
     example_registries = Inr (example_coordinator, example_registries, [])"
  using rebind_same_address_is_noop
    [of example_entry example_coordinator "''marstek''" example_registries]
  by (simp add: dict_get_def CONF_HOST_def example_entry_def example_coordinator_def)

text \<open>
  C8. When the config entry has no usable identifier, or the device registry has no
  device for it, a rebinding to a different address returns normally: the device
  registry is unchanged and never asked to update, the entity names are rewritten, and
  the coordinator compares with the new address from then on.
\<close>

theorem missing_device_skips_device_rename:
  assumes "config_entry s = Some ce"
    and "entry_data entry CONF_HOST = Some new_ip"
    and "new_ip \<noteq> initial_device_ip s"
    and "found_device domain ce (devices regs) = None"
    and "distinct (map dev_id (devices regs))"
    and "distinct (map entity_id (entities regs))"
  shows "\<exists>tr. async_config_entry_updated domain entry s regs =
           Inr (s\<lparr>initial_device_ip := new_ip\<rparr>,
                \<lparr>devices = devices regs,
                 entities = map (renamed_entity new_ip (initial_device_ip s) (entry_id ce))
                              (entities regs)\<rparr>,
                tr) \<and>
         (\<forall>i n. DevUpdate i n \<notin> set tr)"
proof -
  from update_entity_names_exact [OF assms(1,5,6), of domain new_ip "initial_device_ip s"]
  obtain tr where
    r: "update_entity_names domain new_ip (initial_device_ip s) s regs =
       Inr (\<lparr>devices = map (renamed_device new_ip (initial_device_ip s)
                              (found_device domain ce (devices regs))) (devices regs),
             entities = map (renamed_entity new_ip (initial_device_ip s) (entry_id ce))
                          (entities regs)\<rparr>,
            tr)"
    and n: "found_device domain ce (devices regs) = None \<longrightarrow>
            (\<forall>i n. DevUpdate i n \<notin> set tr)"
    by (elim exE conjE) (rule that)
  have "async_config_entry_updated domain entry s regs =
      Inr (s\<lparr>initial_device_ip := new_ip\<rparr>,
           \<lparr>devices = devices regs,
            entities = map (renamed_entity new_ip (initial_device_ip s) (entry_id ce))
                         (entities regs)\<rparr>,
           Log (LogIpChanged (initial_device_ip s) new_ip) # tr)"
    using rebind_changed [OF assms(1) _ assms(3), of entry domain regs] assms(2,4) r
    by (simp add: dict_get_def renamed_device_none)
  moreover have "\<forall>i n. DevUpdate i n \<notin> set (Log (LogIpChanged (initial_device_ip s) new_ip) # tr)"
    using n assms(4) by simp
  ultimately show ?thesis by (intro exI conjI) assumption+
qed

theorem missing_device_skips_device_rename_witness:
  "config_entry (example_coordinator\<lparr>config_entry := Some bare_entry\<rparr>) = Some bare_entry \<and>
   entry_data moved_entry CONF_HOST = Some ''10.0.0.8'' \<and>
   ''10.0.0.8'' \<noteq> initial_device_ip (example_coordinator\<lparr>config_entry := Some bare_entry\<rparr>) \<and>
   found_device ''marstek'' bare_entry (devices example_registries) = None \<and>
   distinct (map dev_id (devices example_registries)) \<and>
   distinct (map entity_id (entities example_registries)) \<and>
   (\<exists>tr. async_config_entry_updated ''marstek'' moved_entry
            (example_coordinator\<lparr>config_entry := Some bare_entry\<rparr>) example_registries =
          Inr (example_coordinator\<lparr>config_entry := Some bare_entry,
                                    initial_device_ip := ''10.0.0.8''\<rparr>,
               \<lparr>devices = devices example_registries,
                entities = entities renamed_registries\<rparr>, tr) \<and>
         (\<forall>i n. DevUpdate i n \<notin> set tr))"
proof -
  have h1: "config_entry (example_coordinator\<lparr>config_entry := Some bare_entry\<rparr>) = Some bare_entry"
    by simp
  have h2: "entry_data moved_entry CONF_HOST = Some ''10.0.0.8''"
    by (simp add: moved_entry_def CONF_HOST_def)
  have h3: "''10.0.0.8'' \<noteq> initial_device_ip (example_coordinator\<lparr>config_entry := Some bare_entry\<rparr>)"
    by (simp add: example_coordinator_def)
  have h4: "found_device ''marstek'' bare_entry (devices example_registries) = None"
    by (simp add: found_device_def device_identifier_def py_or_def bare_entry_def)
  have h5: "distinct (map dev_id (devices example_registries))"
    by (simp add: example_registries_def)
  have h6: "distinct (map entity_id (entities example_registries))"
    by (simp add: example_registries_def)
  have m: "map (renamed_entity ''10.0.0.8''
                 (initial_device_ip (example_coordinator\<lparr>config_entry := Some bare_entry\<rparr>))
                 (entry_id bare_entry)) (entities example_registries) =
           entities renamed_registries"
    by (simp add: renamed_entity_def example_registries_def renamed_registries_def
        example_coordinator_def bare_entry_def str_replace_def)
  from missing_device_skips_device_rename [OF h1 h2 h3 h4 h5 h6]
  show ?thesis using h1 h2 h3 h4 h5 h6 unfolding m by simp
qed

text \<open>
  C9. When the listener is called with the coordinator's own config entry, it returns
  normally and leaves \<^verbatim>\<open>_initial_device_ip\<close> equal to \<^verbatim>\<open>device_ip\<close>, the host of the
  config entry. The stored address moves only when the host differs from it, and then
  the rename from the stored address to the host has been carried out. Notifying again
  with the same entry does nothing, and a later notification with another host renames
  from the host bound last.
\<close>

theorem initial_ip_follows_config_host:
  assumes "config_entry s = Some entry"
    and "s1 = s\<lparr>initial_device_ip := device_ip s\<rparr>"
  shows "\<exists>regs1 tr.
           async_config_entry_updated domain entry s regs = Inr (s1, regs1, tr) \<and>
           initial_device_ip s1 = device_ip s1 \<and>
           (if device_ip s = initial_device_ip s then regs1 = regs \<and> tr = []
            else update_entity_names domain (device_ip s) (initial_device_ip s) s regs =
                   Inr (regs1, tl tr) \<and>
                 tr \<noteq> [] \<and> hd tr = Log (LogIpChanged (initial_device_ip s) (device_ip s))) \<and>
           async_config_entry_updated domain entry s1 regs1 = Inr (s1, regs1, []) \<and>
           (\<forall>entry2 h2. entry_data entry2 CONF_HOST = Some h2 \<and> h2 \<noteq> device_ip s \<longrightarrow>
              (\<exists>regs2 tr2.
                 update_entity_names domain h2 (device_ip s)
                   (s1\<lparr>config_entry := Some entry2\<rparr>) regs1 = Inr (regs2, tr2) \<and>
                 async_config_entry_updated domain entry2
                   (s1\<lparr>config_entry := Some entry2\<rparr>) regs1 =
                   Inr (s1\<lparr>config_entry := Some entry2, initial_device_ip := h2\<rparr>, regs2,
                        Log (LogIpChanged (device_ip s) h2) # tr2)))"
proof -
  have new: "dict_get (entry_data entry) CONF_HOST (initial_device_ip s) = device_ip s"
    using assms(1) by (simp add: device_ip_def)
  have inv: "initial_device_ip s1 = device_ip s1"
    using assms by (auto simp: device_ip_def dict_get_def split: option.splits)
  have again: "async_config_entry_updated domain entry s1 r = Inr (s1, r, [])" for r
  proof (rule rebind_same_address_is_noop_aux)
    show "dict_get (entry_data entry) CONF_HOST (initial_device_ip s1) = initial_device_ip s1"
      using assms by (auto simp: device_ip_def dict_get_def split: option.splits)
  qed
  have later: "\<exists>regs2 tr2.
                 update_entity_names domain h2 (device_ip s)
                   (s1\<lparr>config_entry := Some entry2\<rparr>) r = Inr (regs2, tr2) \<and>
                 async_config_entry_updated domain entry2
                   (s1\<lparr>config_entry := Some entry2\<rparr>) r =
                   Inr (s1\<lparr>config_entry := Some entry2, initial_device_ip := h2\<rparr>, regs2,
                        Log (LogIpChanged (device_ip s) h2) # tr2)"
    if "entry_data entry2 CONF_HOST = Some h2 \<and> h2 \<noteq> device_ip s" for entry2 h2 r
  proof -
    let ?s2 = "s1\<lparr>config_entry := Some entry2\<rparr>"
    have i2: "initial_device_ip ?s2 = device_ip s" using assms(2) by simp
    obtain regs2 tr2 where
      u: "update_entity_names domain h2 (device_ip s) ?s2 r = Inr (regs2, tr2)"
      using update_entity_names_total by blast
    have "async_config_entry_updated domain entry2 ?s2 r =
        Inr (?s2\<lparr>initial_device_ip := h2\<rparr>, regs2,
             Log (LogIpChanged (initial_device_ip ?s2) h2) # tr2)"
    proof (rule rebind_changed)
      show "config_entry ?s2 = Some entry2" by simp
      show "dict_get (entry_data entry2) CONF_HOST (initial_device_ip ?s2) = h2"
        using that by (simp add: dict_get_def)
      show "h2 \<noteq> initial_device_ip ?s2" using that i2 by simp
      show "update_entity_names domain h2 (initial_device_ip ?s2) ?s2 r = Inr (regs2, tr2)"
        using u i2 by simp
    qed
    with u i2 show ?thesis by simp
  qed
  show ?thesis
  proof (cases "device_ip s = initial_device_ip s")
    case True
    then have s1: "s1 = s" using assms(2) by simp
    have "async_config_entry_updated domain entry s regs = Inr (s1, regs, [])"
      using new True unfolding s1 by (intro rebind_same_address_is_noop_aux) simp
    with inv again True later show ?thesis by auto
  next
    case False
    obtain regs1 tr1 where
      u: "update_entity_names domain (device_ip s) (initial_device_ip s) s regs = Inr (regs1, tr1)"
      using update_entity_names_total by blast
    have "async_config_entry_updated domain entry s regs =
        Inr (s1, regs1, Log (LogIpChanged (initial_device_ip s) (device_ip s)) # tr1)"
      unfolding assms(2) using assms(1) new False u by (intro rebind_changed) auto
    with inv again [of regs1] False later u show ?thesis by auto
  qed
qed

theorem initial_ip_follows_config_host_witness:
  "config_entry rebinding_coordinator = Some moved_entry \<and>
   rebound_coordinator = rebinding_coordinator\<lparr>initial_device_ip := device_ip rebinding_coordinator\<rparr> \<and>
   async_config_entry_updated ''marstek'' moved_entry rebinding_coordinator example_registries =
     Inr (rebound_coordinator, renamed_registries,
          Log (LogIpChanged ''10.0.0.7'' ''10.0.0.8'') # rename_trace) \<and>
   initial_device_ip rebound_coordinator = device_ip rebound_coordinator \<and>
   async_config_entry_updated ''marstek'' moved_entry rebound_coordinator renamed_registries =
     Inr (rebound_coordinator, renamed_registries, [])"
proof -
  have h1: "config_entry rebinding_coordinator = Some moved_entry"
    by (rule rebinding_defs)
  have h2: "rebound_coordinator =
      rebinding_coordinator\<lparr>initial_device_ip := device_ip rebinding_coordinator\<rparr>"
    by (simp add: rebound_coordinator_def rebinding_defs)
  from initial_ip_follows_config_host [OF h1 h2, of "''marstek''" example_registries]
  obtain regs1 tr where
    a: "async_config_entry_updated ''marstek'' moved_entry rebinding_coordinator
          example_registries = Inr (rebound_coordinator, regs1, tr)"
    and b: "initial_device_ip rebound_coordinator = device_ip rebound_coordinator"
    and c: "async_config_entry_updated ''marstek'' moved_entry rebound_coordinator regs1 =
          Inr (rebound_coordinator, regs1, [])"
    by (elim exE conjE) (rule that)
  have e: "async_config_entry_updated ''marstek'' moved_entry rebinding_coordinator
          example_registries =
        Inr (rebound_coordinator, renamed_registries,
             Log (LogIpChanged ''10.0.0.7'' ''10.0.0.8'') # rename_trace)"
    using rebinding_rename
    by (simp add: async_config_entry_updated_def rebinding_defs rebound_coordinator_def
        moved_entry_def dict_get_def CONF_HOST_def Let_def)
  from a e have "regs1 = renamed_registries" by simp
  with b c e h1 h2 show ?thesis by simp
qed

end
